theory Spec2Isabelle
  imports Complex_Main
begin

section \<open>Conventions of the embedding\<close>

text \<open>
  The services of \<^verbatim>\<open>app/services\<close> are embedded function by function, as they run against
  the classes of \<^verbatim>\<open>app/models\<close>. A SQLAlchemy session is a record of the tables the
  services query, each table a list of rows in stored order, together with the answers
  of the PostGIS functions the services send to the database:
  \<^item> \<^verbatim>\<open>db.query(T).filter(c).all()\<close> is \<open>filter c\<close> over the table, \<^verbatim>\<open>.first()\<close> is
    \<open>find c\<close>, \<^verbatim>\<open>.count()\<close> is the length of the filtered table, and
    \<^verbatim>\<open>.order_by(TrackingPoint.recorded_at.asc())\<close> is a stable sort on that column;
  \<^item> a row has the attributes its class declares and no other: reading another attribute
    raises \<^verbatim>\<open>AttributeError\<close>, and a constructor keyword that is not an attribute of the
    class raises \<^verbatim>\<open>TypeError\<close>, as the declarative constructor does;
  \<^item> a call that leaves a positional parameter without argument raises \<^verbatim>\<open>TypeError\<close>
    before the body of the function runs;
  \<^item> a raised exception is the \<open>Inl\<close> branch of a sum, and statements run in the order
    of the source (\<open>and_then\<close>); a function that writes to the session returns the
    session it leaves behind next to the outcome;
  \<^item> identifiers (UUIDs) are natural numbers, always truthy; a \<^verbatim>\<open>datetime\<close> is a real
    number of seconds; a \<^verbatim>\<open>Decimal\<close> is the real number it denotes, and so is a
    \<^verbatim>\<open>float\<close>, whose operations are not rounded here;
  \<^item> the constraints that \<^verbatim>\<open>app/models\<close> declares (primary and foreign keys) are not
    enforced by the session.
\<close>

type_synonym uuid = nat
type_synonym datetime = real
type_synonym geo = "real \<times> real"

datatype DriverStatus = Driver_AVAILABLE | ON_DUTY | OFF_DUTY

datatype ShipmentStatus = CREATED | ASSIGNED | IN_TRANSIT | DELIVERED | DELAYED | CANCELLED

datatype VehicleStatus = Vehicle_AVAILABLE | IN_USE | MAINTENANCE | INACTIVE

datatype VehicleType = MOTORCYCLE | VAN | TRUCK | PICKUP

record Vehicle =
  vehicle_id :: uuid
  vehicle_type :: VehicleType
  capacity_kg :: real
  vehicle_status :: VehicleStatus
  vehicle_is_active :: bool

text \<open>The column \<^verbatim>\<open>location\<close> of a driver holds a \<^verbatim>\<open>WKBElement\<close>; its point is the pair.\<close>

record Driver =
  driver_id :: uuid
  driver_vehicle_id :: "uuid option"
  driver_status :: DriverStatus
  driver_location :: "geo option"
  driver_is_active :: bool

record Shipment =
  shipment_id :: uuid
  shipment_driver_id :: "uuid option"
  shipment_status :: ShipmentStatus
  estimated_distance_km :: "real option"

record TrackingPoint =
  tp_id :: uuid
  tp_shipment_id :: uuid
  tp_location :: geo
  speed_kmh :: "real option"
  recorded_at :: datetime
  tp_notes :: "string option"

text \<open>
  The session: the four tables, and what the database answers to the spatial queries of
  the services: \<^verbatim>\<open>ST_Distance\<close> between two points and between a route and a point, and
  \<^verbatim>\<open>ST_Length(ST_MakeLine(...))\<close> over the locations of the selected rows. \<open>None\<close> is
  SQL \<^verbatim>\<open>NULL\<close>.
\<close>

record Session =
  drivers :: "Driver list"
  shipments :: "Shipment list"
  vehicles :: "Vehicle list"
  tracking_points :: "TrackingPoint list"
  ST_Distance :: "geo \<Rightarrow> geo \<Rightarrow> real option"
  ST_Distance_route :: "geo list \<Rightarrow> geo \<Rightarrow> real"
  ST_Length_MakeLine :: "geo list \<Rightarrow> real option"

section \<open>Exceptions, attributes and calls\<close>

text \<open>
  The exceptions of the services and of the interpreter. The string of an
  \<^verbatim>\<open>AttributeError\<close> is the attribute that was read, the string of a \<^verbatim>\<open>TypeError\<close> names
  what was refused, the string of the two others is their message.
\<close>

datatype exn = ValueError string | Exception string | AttributeError string | TypeError string

definition and_then :: "exn + 'a \<Rightarrow> ('a \<Rightarrow> exn + 'b) \<Rightarrow> exn + 'b" where
  "and_then r f = (case r of Inl e \<Rightarrow> Inl e | Inr v \<Rightarrow> f v)"

text \<open>
  The attributes of the mapped classes, from \<^verbatim>\<open>tracking_model.py\<close> and
  \<^verbatim>\<open>shipment_model.py\<close> (columns and relationships), and the attributes of a
  \<^verbatim>\<open>WKBElement\<close>, which forwards no other name than those of spatial functions.
\<close>

definition TrackingPoint_attributes :: "string list" where
  "TrackingPoint_attributes =
     [''id'', ''shipment_id'', ''location'', ''speed_kmh'', ''recorded_at'', ''notes'',
      ''shipment'']"

definition Shipment_attributes :: "string list" where
  "Shipment_attributes =
     [''id'', ''tracking_number'', ''shipper_id'', ''driver_id'', ''origin'', ''destination'',
      ''package_description'', ''weight_kg'', ''volume_m3'', ''status'',
      ''estimated_distance_km'', ''estimated_cost'', ''actual_cost'', ''created_at'',
      ''assigned_at'', ''picked_up_at'', ''delivered_at'', ''updated_at'', ''recipient_name'',
      ''recipient_phone'', ''customer'', ''driver'', ''tracking_points'']"

definition WKBElement_attributes :: "string list" where
  "WKBElement_attributes = [''data'', ''srid'', ''extended'', ''desc'']"

text \<open>
  The read \<^verbatim>\<open>obj.name\<close> on an object whose class has the attributes \<open>declared\<close>; the
  last argument is the value the object holds under that name.
\<close>

definition getattr :: "string list \<Rightarrow> string \<Rightarrow> 'a \<Rightarrow> exn + 'a" where
  "getattr declared name v = (if name \<in> set declared then Inr v else Inl (AttributeError name))"

text \<open>
  The declarative constructor \<^verbatim>\<open>Cls(**kwargs)\<close>: the first keyword that is not an
  attribute of the class is refused; otherwise the row is built.
\<close>

definition construct :: "string list \<Rightarrow> string list \<Rightarrow> 'a \<Rightarrow> exn + 'a" where
  "construct declared keywords row =
     (case find (\<lambda>k. k \<notin> set declared) keywords of
        Some k \<Rightarrow> Inl (TypeError k)
      | None \<Rightarrow> Inr row)"

section \<open>Distances and rounding (\<^verbatim>\<open>shipments_service.py\<close>)\<close>

text \<open>\<^verbatim>\<open>Decimal.quantize(Decimal("0.01"), rounding=ROUND_HALF_UP)\<close>: ties go away from zero.\<close>

definition quantize_half_up :: "real \<Rightarrow> real" where
  "quantize_half_up v =
     (if v \<ge> 0 then of_int \<lfloor>v * 100 + 1 / 2\<rfloor> / 100
      else - of_int \<lfloor>- v * 100 + 1 / 2\<rfloor> / 100)"

text \<open>
  Python's \<^verbatim>\<open>round(v, n)\<close>: ties go to the even neighbour. On a \<^verbatim>\<open>float\<close> the result is the
  \<^verbatim>\<open>float\<close> nearest to this decimal, which stands for it here.
\<close>

definition py_round :: "real \<Rightarrow> nat \<Rightarrow> real" where
  "py_round v n =
     (let s = v * 10 ^ n; f = \<lfloor>s\<rfloor>; r = s - of_int f
      in of_int (if r < 1 / 2 then f
                 else if r > 1 / 2 then f + 1
                 else if even f then f else f + 1) / 10 ^ n)"

text \<open>The function as it is declared, with its five parameters.\<close>

definition calculate_distance_km :: "Session \<Rightarrow> real \<Rightarrow> real \<Rightarrow> real \<Rightarrow> real \<Rightarrow> exn + real" where
  "calculate_distance_km db origin_lat origin_lng dest_lat dest_lng =
     (case ST_Distance db (origin_lng, origin_lat) (dest_lng, dest_lat) of
        None \<Rightarrow> Inl (ValueError ''Distance calculation failed'')
      | Some distance_meters \<Rightarrow> Inr (quantize_half_up (distance_meters / 1000)))"

text \<open>
  The call \<^verbatim>\<open>calculate_distance_km(a, b, c, d)\<close> of \<^verbatim>\<open>tracking_service.py\<close> and
  \<^verbatim>\<open>driver_service.py\<close>: the four arguments go to \<^verbatim>\<open>db\<close>, \<^verbatim>\<open>origin_lat\<close>,
  \<^verbatim>\<open>origin_lng\<close> and \<^verbatim>\<open>dest_lat\<close>, and \<^verbatim>\<open>dest_lng\<close> has none.
\<close>

definition calculate_distance_km_4 :: "real \<Rightarrow> real \<Rightarrow> real \<Rightarrow> real \<Rightarrow> exn + real" where
  "calculate_distance_km_4 a b c d =
     Inl (TypeError ''calculate_distance_km() missing 1 required positional argument: dest_lng'')"

text \<open>
  The distance is a \<^verbatim>\<open>Decimal\<close>. Its division by a \<^verbatim>\<open>float\<close> is refused, its division by
  an \<^verbatim>\<open>int\<close> is a \<^verbatim>\<open>Decimal\<close>, and \<^verbatim>\<open>timedelta(minutes=...)\<close> refuses a \<^verbatim>\<open>Decimal\<close>. Its
  comparison with the \<^verbatim>\<open>float\<close> literal \<^verbatim>\<open>0.1\<close> is exact, and that literal is the double
  nearest to one tenth.
\<close>

definition Decimal_truediv_float :: "real \<Rightarrow> real \<Rightarrow> exn + real" where
  "Decimal_truediv_float d f = Inl (TypeError ''Decimal / float'')"

definition timedelta_minutes_Decimal :: "real \<Rightarrow> exn + real" where
  "timedelta_minutes_Decimal d = Inl (TypeError ''timedelta minutes component: Decimal'')"

definition float_0_1 :: real where
  "float_0_1 = 3602879701896397 / 36028797018963968"

definition validate_coordinates :: "real \<Rightarrow> real \<Rightarrow> bool" where
  "validate_coordinates latitude longitude =
     (if - 90 \<le> latitude \<and> latitude \<le> 90 \<and> - 180 \<le> longitude \<and> longitude \<le> 180
      then True else False)"

section \<open>Vehicle selection (\<^verbatim>\<open>vehicle_service.py\<close>)\<close>

text \<open>The loop \<^verbatim>\<open>for vehicle in suitable_vehicles: if vehicle.vehicle_type in ts: return vehicle\<close>.\<close>

fun first_of_types :: "VehicleType list \<Rightarrow> Vehicle list \<Rightarrow> Vehicle option" where
  "first_of_types ts [] = None"
| "first_of_types ts (vehicle # rest) =
     (if vehicle_type vehicle \<in> set ts then Some vehicle else first_of_types ts rest)"

definition get_optimal_vehicle_for_shipment :: "real \<Rightarrow> real \<Rightarrow> Session \<Rightarrow> Vehicle option" where
  "get_optimal_vehicle_for_shipment weight_kg distance_km db =
     (let suitable_vehicles =
            filter (\<lambda>v. vehicle_status v = Vehicle_AVAILABLE \<and> vehicle_is_active v
                         \<and> capacity_kg v \<ge> weight_kg) (vehicles db)
      in case suitable_vehicles of
           [] \<Rightarrow> None
         | v0 # _ \<Rightarrow>
             (case (if distance_km < 5 \<and> weight_kg < 10
                    then first_of_types [MOTORCYCLE] suitable_vehicles
                    else if distance_km < 20 \<and> weight_kg < 500
                    then first_of_types [VAN, PICKUP] suitable_vehicles
                    else first_of_types [TRUCK] suitable_vehicles) of
                Some vehicle \<Rightarrow> Some vehicle
              | None \<Rightarrow> Some v0))"

text \<open>The words of the specification: which vehicles are suitable, which classes a tier prefers.\<close>

definition suitable :: "real \<Rightarrow> Vehicle \<Rightarrow> bool" where
  "suitable weight_kg v =
     (vehicle_is_active v \<and> vehicle_status v = Vehicle_AVAILABLE \<and> capacity_kg v \<ge> weight_kg)"

definition preferred_types :: "real \<Rightarrow> real \<Rightarrow> VehicleType list" where
  "preferred_types weight_kg distance_km =
     (if distance_km < 5 \<and> weight_kg < 10 then [MOTORCYCLE]
      else if distance_km < 20 \<and> weight_kg < 500 then [VAN, PICKUP]
      else [TRUCK])"

definition a_motorcycle :: Vehicle where
  "a_motorcycle = \<lparr>vehicle_id = 1, vehicle_type = MOTORCYCLE, capacity_kg = 50,
                   vehicle_status = Vehicle_AVAILABLE, vehicle_is_active = True\<rparr>"

definition a_van :: Vehicle where
  "a_van = \<lparr>vehicle_id = 2, vehicle_type = VAN, capacity_kg = 800,
            vehicle_status = Vehicle_AVAILABLE, vehicle_is_active = True\<rparr>"

definition fleet :: "Vehicle list \<Rightarrow> Session" where
  "fleet vs = \<lparr>drivers = [], shipments = [], vehicles = vs, tracking_points = [],
               ST_Distance = (\<lambda>_ _. None), ST_Distance_route = (\<lambda>_ _. 0),
               ST_Length_MakeLine = (\<lambda>_. None)\<rparr>"

section \<open>Driver availability (\<^verbatim>\<open>driver_service.py\<close>)\<close>

record workload =
  assigned_shipments :: nat
  in_transit_shipments :: nat
  total_active :: nat
  pending_distance :: real
  workload_status :: string
  can_accept_more :: bool

definition get_driver_active_workload :: "uuid \<Rightarrow> Session \<Rightarrow> workload" where
  "get_driver_active_workload did db =
     (let assigned = length (filter (\<lambda>s. shipment_driver_id s = Some did
                                          \<and> shipment_status s = ASSIGNED) (shipments db));
          in_transit = length (filter (\<lambda>s. shipment_driver_id s = Some did
                                          \<and> shipment_status s = IN_TRANSIT) (shipments db));
          total = assigned + in_transit;
          active_shipments = filter (\<lambda>s. shipment_driver_id s = Some did
                                          \<and> shipment_status s \<in> set [ASSIGNED, IN_TRANSIT])
                                    (shipments db);
          pending = sum_list (map (\<lambda>s. case estimated_distance_km s of
                                           None \<Rightarrow> 0 | Some k \<Rightarrow> k) active_shipments)
      in \<lparr>assigned_shipments = assigned,
          in_transit_shipments = in_transit,
          total_active = total,
          pending_distance = py_round pending 2,
          workload_status = (if total = 0 then ''free''
                             else if total \<le> 2 then ''light''
                             else if total \<le> 5 then ''moderate''
                             else ''heavy''),
          can_accept_more = (total < 5)\<rparr>)"

text \<open>The reason strings of the availability check, with the numbers their f-strings print.\<close>

datatype reason =
    Driver_not_found
  | Driver_is_not_active
  | Driver_is_off_duty
  | Driver_has_maximum_workload nat
  | Vehicle_capacity_insufficient real real
  | Driver_has_no_vehicle_assigned
  | Driver_is_available

record availability =
  available :: bool
  reason :: reason
  current_workload :: "nat option"
  driver_status_reported :: "DriverStatus option"

definition unavailable :: "reason \<Rightarrow> availability" where
  "unavailable r = \<lparr>available = False, reason = r, current_workload = None,
                    driver_status_reported = None\<rparr>"

definition check_driver_availability_for_shipment :: "uuid \<Rightarrow> real \<Rightarrow> Session \<Rightarrow> availability" where
  "check_driver_availability_for_shipment did shipment_weight_kg db =
     (case find (\<lambda>d. driver_id d = did) (drivers db) of
        None \<Rightarrow> unavailable Driver_not_found
      | Some driver \<Rightarrow>
          if \<not> driver_is_active driver then unavailable Driver_is_not_active
          else if driver_status driver = OFF_DUTY then unavailable Driver_is_off_duty
          else let w = get_driver_active_workload did db in
            if \<not> can_accept_more w
            then unavailable (Driver_has_maximum_workload (total_active w))
            else (case driver_vehicle_id driver of
                    None \<Rightarrow> unavailable Driver_has_no_vehicle_assigned
                  | Some vid \<Rightarrow>
                      (case find (\<lambda>v. vehicle_id v = vid) (vehicles db) of
                         Some vehicle \<Rightarrow>
                           if capacity_kg vehicle < shipment_weight_kg
                           then unavailable (Vehicle_capacity_insufficient
                                               (capacity_kg vehicle) shipment_weight_kg)
                           else \<lparr>available = True, reason = Driver_is_available,
                                 current_workload = Some (total_active w),
                                 driver_status_reported = Some (driver_status driver)\<rparr>
                       | None \<Rightarrow>
                           \<lparr>available = True, reason = Driver_is_available,
                            current_workload = Some (total_active w),
                            driver_status_reported = Some (driver_status driver)\<rparr>)))"

definition driver_7 :: Driver where
  "driver_7 = \<lparr>driver_id = 7, driver_vehicle_id = Some 99, driver_status = Driver_AVAILABLE,
               driver_location = Some (37, - 1), driver_is_active = True\<rparr>"

definition dangling_db :: Session where
  "dangling_db = \<lparr>drivers = [driver_7], shipments = [], vehicles = [a_motorcycle],
                  tracking_points = [],
                  ST_Distance = (\<lambda>_ _. Some 2000), ST_Distance_route = (\<lambda>_ _. 0),
                  ST_Length_MakeLine = (\<lambda>_. None)\<rparr>"

section \<open>Tracking analytics (\<^verbatim>\<open>tracking_service.py\<close>)\<close>

text \<open>
  The query every analytics function starts with: the shipment's tracking points,
  ordered by \<^verbatim>\<open>recorded_at\<close> ascending.
\<close>

definition points_of :: "Session \<Rightarrow> uuid \<Rightarrow> TrackingPoint list" where
  "points_of db sid =
     sort_key recorded_at (filter (\<lambda>p. tp_shipment_id p = sid) (tracking_points db))"

text \<open>
  The statement
  \<^verbatim>\<open>distance = calculate_distance_km(prev_point.x, prev_point.y, curr_point.x, curr_point.y)\<close>
  of the three loops: the four arguments are read from left to right, then the call is
  made. A tracking point holds its coordinates in \<^verbatim>\<open>location\<close>.
\<close>

definition pair_distance :: "TrackingPoint \<Rightarrow> TrackingPoint \<Rightarrow> exn + real" where
  "pair_distance prev_point curr_point =
     and_then (getattr TrackingPoint_attributes ''x'' (fst (tp_location prev_point))) (\<lambda>a.
     and_then (getattr TrackingPoint_attributes ''y'' (snd (tp_location prev_point))) (\<lambda>b.
     and_then (getattr TrackingPoint_attributes ''x'' (fst (tp_location curr_point))) (\<lambda>c.
     and_then (getattr TrackingPoint_attributes ''y'' (snd (tp_location curr_point))) (\<lambda>d.
     calculate_distance_km_4 a b c d))))"

subsection \<open>\<^verbatim>\<open>detect_delivery_stops\<close>\<close>

record stop =
  stop_latitude :: real
  stop_longitude :: real
  start_time :: datetime
  end_time :: datetime
  duration_minutes :: real
  stop_notes :: string

text \<open>The body of the loop for one pair: it raises, or appends a stop, or appends nothing.\<close>

definition stop_step :: "int \<Rightarrow> TrackingPoint \<Rightarrow> TrackingPoint \<Rightarrow> exn + stop option" where
  "stop_step min_stop_minutes prev_point curr_point =
     and_then (pair_distance prev_point curr_point) (\<lambda>distance.
       let time_diff_minutes = (recorded_at curr_point - recorded_at prev_point) / 60
       in if distance < float_0_1 \<and> time_diff_minutes \<ge> of_int min_stop_minutes
          then and_then (getattr TrackingPoint_attributes ''x'' (fst (tp_location prev_point))) (\<lambda>x.
               and_then (getattr TrackingPoint_attributes ''y'' (snd (tp_location prev_point))) (\<lambda>y.
               Inr (Some \<lparr>stop_latitude = x,
                          stop_longitude = y,
                          start_time = recorded_at prev_point,
                          end_time = recorded_at curr_point,
                          duration_minutes = py_round time_diff_minutes 1,
                          stop_notes = (case tp_notes prev_point of
                                          None \<Rightarrow> ''Unspecified stop''
                                        | Some n \<Rightarrow> if n = [] then ''Unspecified stop'' else n)\<rparr>)))
          else Inr None)"

text \<open>The loop \<^verbatim>\<open>for i in range(1, len(tracking_points))\<close>, with \<^verbatim>\<open>stops\<close> as accumulator.\<close>

fun stops_loop :: "int \<Rightarrow> TrackingPoint list \<Rightarrow> stop list \<Rightarrow> exn + stop list" where
  "stops_loop min_stop_minutes (prev_point # curr_point # rest) stops =
     (case stop_step min_stop_minutes prev_point curr_point of
        Inl e \<Rightarrow> Inl e
      | Inr None \<Rightarrow> stops_loop min_stop_minutes (curr_point # rest) stops
      | Inr (Some s) \<Rightarrow> stops_loop min_stop_minutes (curr_point # rest) (stops @ [s]))"
| "stops_loop min_stop_minutes _ stops = Inr stops"

definition detect_delivery_stops :: "uuid \<Rightarrow> Session \<Rightarrow> int \<Rightarrow> exn + stop list" where
  "detect_delivery_stops sid db min_stop_minutes =
     (let tracking_points = points_of db sid
      in if length tracking_points < 2 then Inr []
         else stops_loop min_stop_minutes tracking_points [])"

subsection \<open>\<^verbatim>\<open>validate_tracking_point_sequence\<close>\<close>

datatype anomaly =
    Time_sequence uuid
  | Impossible_speed uuid real

datatype validation_message = Not_enough_data | Validation_complete | Found_anomalies nat

record validation =
  valid :: bool
  anomalies :: "anomaly list"
  total_points_checked :: "nat option"
  message :: validation_message

text \<open>The body of the loop for one pair, from the anomalies found so far to those after it.\<close>

definition anomaly_step :: "TrackingPoint \<Rightarrow> TrackingPoint \<Rightarrow> anomaly list \<Rightarrow> exn + anomaly list" where
  "anomaly_step prev_point curr_point found =
     (let found1 = (if recorded_at curr_point \<le> recorded_at prev_point
                    then found @ [Time_sequence (tp_id curr_point)] else found)
      in and_then (pair_distance prev_point curr_point) (\<lambda>distance.
           let time_diff_hours = (recorded_at curr_point - recorded_at prev_point) / 3600
           in if time_diff_hours > 0
              then and_then (Decimal_truediv_float distance time_diff_hours) (\<lambda>speed.
                     if speed > 150
                     then Inr (found1 @ [Impossible_speed (tp_id curr_point) (py_round speed 2)])
                     else Inr found1)
              else Inr found1))"

fun anomalies_loop :: "TrackingPoint list \<Rightarrow> anomaly list \<Rightarrow> exn + anomaly list" where
  "anomalies_loop (prev_point # curr_point # rest) found =
     (case anomaly_step prev_point curr_point found of
        Inl e \<Rightarrow> Inl e
      | Inr found' \<Rightarrow> anomalies_loop (curr_point # rest) found')"
| "anomalies_loop _ found = Inr found"

definition validate_tracking_point_sequence :: "uuid \<Rightarrow> Session \<Rightarrow> exn + validation" where
  "validate_tracking_point_sequence sid db =
     (let tracking_points = points_of db sid
      in if length tracking_points < 2
         then Inr \<lparr>valid = True, anomalies = [], total_points_checked = None,
                   message = Not_enough_data\<rparr>
         else (case anomalies_loop tracking_points [] of
                 Inl e \<Rightarrow> Inl e
               | Inr found \<Rightarrow>
                   Inr \<lparr>valid = (length found = 0),
                        anomalies = found,
                        total_points_checked = Some (length tracking_points),
                        message = (if length found = 0 then Validation_complete
                                   else Found_anomalies (length found))\<rparr>))"

subsection \<open>\<^verbatim>\<open>calculate_average_speed\<close>\<close>

text \<open>The returned dictionary, key by key: its keys differ between the return statements.\<close>

datatype json = Number real | Text string | Ident uuid

definition speed_step :: "TrackingPoint \<Rightarrow> TrackingPoint \<Rightarrow> exn + real option" where
  "speed_step prev_point curr_point =
     and_then (pair_distance prev_point curr_point) (\<lambda>distance.
       let time_diff = (recorded_at curr_point - recorded_at prev_point) / 3600
       in if time_diff > 0
          then and_then (Decimal_truediv_float distance time_diff) (\<lambda>speed. Inr (Some speed))
          else Inr None)"

fun speeds_loop :: "TrackingPoint list \<Rightarrow> real list \<Rightarrow> exn + real list" where
  "speeds_loop (prev_point # curr_point # rest) speeds =
     (case speed_step prev_point curr_point of
        Inl e \<Rightarrow> Inl e
      | Inr None \<Rightarrow> speeds_loop (curr_point # rest) speeds
      | Inr (Some speed) \<Rightarrow> speeds_loop (curr_point # rest) (speeds @ [speed]))"
| "speeds_loop _ speeds = Inr speeds"

definition calculate_average_speed :: "uuid \<Rightarrow> Session \<Rightarrow> exn + (string \<times> json) list" where
  "calculate_average_speed sid db =
     (let tracking_points = points_of db sid
      in if length tracking_points < 2
         then Inr [(''average_speed_kmh'', Number 0),
                   (''max_speed_kmh'', Number 0),
                   (''message'', Text ''Insufficient tracking data'')]
         else (case speeds_loop tracking_points [] of
                 Inl e \<Rightarrow> Inl e
               | Inr [] \<Rightarrow>
                   Inr [(''average_speed_kmh'', Number 0),
                        (''max_speed_kmh'', Number 0),
                        (''message'', Text ''Could not calculate speed'')]
               | Inr (s # ss) \<Rightarrow>
                   let speeds = s # ss;
                       recorded_speeds =
                         filter (\<lambda>p. case speed_kmh p of None \<Rightarrow> False | Some v \<Rightarrow> v \<noteq> 0)
                                tracking_points
                   in Inr [(''average_speed_kmh'',
                              Number (py_round (sum_list speeds / real (length speeds)) 2)),
                           (''max_speed_kmh'', Number (py_round (fold max ss s) 2)),
                           (''min_speed_kmh'', Number (py_round (fold min ss s) 2)),
                           (''calculated_from_points'', Number (real (length speeds))),
                           (''recorded_speeds_available'',
                              Number (real (length recorded_speeds)))]))"

subsection \<open>\<^verbatim>\<open>calculate_total_distance_traveled\<close> and its route\<close>




subsection \<open>\<^verbatim>\<open>calculate_estimated_delivery_time\<close>\<close>

text \<open>
  The clock \<^verbatim>\<open>datetime.utcnow()\<close> is the argument \<open>now\<close>; the two formatted strings of
  the result are the timestamp \<open>eta\<close>. The two assignments to the class attributes
  \<^verbatim>\<open>Driver.location\<close> and \<^verbatim>\<open>Shipment.destination\<close> at the head of the function touch
  no row and are left out. The speed is the \<^verbatim>\<open>float\<close> given, or the \<^verbatim>\<open>int\<close> 40.
\<close>

record eta_info =
  remaining_distance_km :: real
  current_speed_kmh :: real
  estimated_time_minutes :: real
  eta :: datetime

definition calculate_estimated_delivery_time ::
    "datetime \<Rightarrow> real \<Rightarrow> real \<Rightarrow> real \<Rightarrow> real \<Rightarrow> real option \<Rightarrow> exn + eta_info" where
  "calculate_estimated_delivery_time now current_location_lat current_location_lng
       destination_lat destination_lng current_speed_kmh_arg =
     and_then (calculate_distance_km_4 current_location_lat current_location_lng
                                       destination_lat destination_lng) (\<lambda>remaining_distance.
       let given = (case current_speed_kmh_arg of None \<Rightarrow> False | Some s \<Rightarrow> s \<noteq> 0 \<and> s > 0);
           speed = (case current_speed_kmh_arg of None \<Rightarrow> 40 | Some s \<Rightarrow> if given then s else 40)
       in and_then (if given then Decimal_truediv_float remaining_distance speed
                    else Inr (remaining_distance / speed)) (\<lambda>time_hours.
            let time_minutes = time_hours * 60
            in and_then (timedelta_minutes_Decimal time_minutes) (\<lambda>delta.
                 Inr \<lparr>remaining_distance_km = py_round remaining_distance 2,
                      current_speed_kmh = py_round speed 2,
                      estimated_time_minutes = py_round time_minutes 1,
                      eta = now + delta\<rparr>)))"

section \<open>Tracking ingest (\<^verbatim>\<open>tracking_service.py\<close>)\<close>

text \<open>
  The identifier of the new row (\<^verbatim>\<open>uuid.uuid4\<close>) and the clock of its \<^verbatim>\<open>recorded_at\<close>
  default are the arguments \<open>new_id\<close> and \<open>now\<close>. The constructor is called with the
  keywords \<^verbatim>\<open>driver_id\<close>, \<^verbatim>\<open>shipment_id\<close>, \<^verbatim>\<open>location\<close> and \<^verbatim>\<open>speed_kph\<close>; the location
  is \<^verbatim>\<open>Point(longitude, latitude)\<close>. Whatever is raised inside the \<^verbatim>\<open>try\<close> is answered by
  a rollback, which leaves the session as it was, and by
  \<^verbatim>\<open>Exception("Error saving tracking point")\<close>.
\<close>

definition save_tracking_point ::
    "Session \<Rightarrow> uuid \<Rightarrow> datetime \<Rightarrow> uuid \<Rightarrow> uuid \<Rightarrow> real \<Rightarrow> real \<Rightarrow> real option
       \<Rightarrow> (exn + TrackingPoint) \<times> Session" where
  "save_tracking_point db new_id now did sid latitude longitude speed_kph =
     (case construct TrackingPoint_attributes
             [''driver_id'', ''shipment_id'', ''location'', ''speed_kph'']
             \<lparr>tp_id = new_id, tp_shipment_id = sid, tp_location = (longitude, latitude),
              speed_kmh = None, recorded_at = now, tp_notes = None\<rparr> of
        Inl e \<Rightarrow> (Inl (Exception ''Error saving tracking point''), db)
      | Inr tracking \<Rightarrow>
          (Inr tracking, db\<lparr>tracking_points := tracking_points db @ [tracking]\<rparr>))"

text \<open>The assignment \<^verbatim>\<open>driver.location = point\<close> on the first row of that id.\<close>

fun set_location :: "uuid \<Rightarrow> geo \<Rightarrow> Driver list \<Rightarrow> Driver list" where
  "set_location did point [] = []"
| "set_location did point (d # ds) =
     (if driver_id d = did then d\<lparr>driver_location := Some point\<rparr> # ds
      else d # set_location did point ds)"

definition update_driver_current_location ::
    "Session \<Rightarrow> uuid \<Rightarrow> real \<Rightarrow> real \<Rightarrow> exn + Driver \<times> Session" where
  "update_driver_current_location db did latitude longitude =
     (case find (\<lambda>d. driver_id d = did) (drivers db) of
        None \<Rightarrow> Inl (Exception ''Driver not found'')
      | Some driver \<Rightarrow>
          Inr (driver\<lparr>driver_location := Some (longitude, latitude)\<rparr>,
               db\<lparr>drivers := set_location did (longitude, latitude) (drivers db)\<rparr>))"

record deviation =
  distance_from_route_meters :: real
  is_deviated :: bool

text \<open>
  The guard \<^verbatim>\<open>if not shipment or not shipment.route\<close> reads \<^verbatim>\<open>route\<close> only when the
  shipment was found; no column of a shipment holds a route.
\<close>

definition calculate_route_deviation ::
    "Session \<Rightarrow> uuid \<Rightarrow> real \<Rightarrow> real \<Rightarrow> real \<Rightarrow> exn + deviation" where
  "calculate_route_deviation db sid latitude longitude threshold_meters =
     (case find (\<lambda>s. shipment_id s = sid) (shipments db) of
        None \<Rightarrow> Inl (Exception ''Shipment route not found'')
      | Some shipment \<Rightarrow>
          and_then (getattr Shipment_attributes ''route'' None) (\<lambda>shipment_route.
            case shipment_route of
              None \<Rightarrow> Inl (Exception ''Shipment route not found'')
            | Some r \<Rightarrow>
                let distance_m = ST_Distance_route db r (longitude, latitude)
                in Inr \<lparr>distance_from_route_meters = py_round distance_m 2,
                        is_deviated = (distance_m > threshold_meters)\<rparr>))"

record tracking_result =
  tracking_id :: uuid
  result_distance_from_route_meters :: real
  result_is_deviated :: bool

text \<open>
  \<^verbatim>\<open>track_driver\<close> calls the three steps in sequence and catches nothing; the second
  component of the result is the session the call leaves behind.
\<close>

definition track_driver ::
    "Session \<Rightarrow> uuid \<Rightarrow> datetime \<Rightarrow> uuid \<Rightarrow> uuid \<Rightarrow> real \<Rightarrow> real \<Rightarrow> real option
       \<Rightarrow> (exn + tracking_result) \<times> Session" where
  "track_driver db new_id now did sid latitude longitude speed_kph =
     (case save_tracking_point db new_id now did sid latitude longitude speed_kph of
        (Inl e, db1) \<Rightarrow> (Inl e, db1)
      | (Inr tracking, db1) \<Rightarrow>
          (case update_driver_current_location db1 did latitude longitude of
             Inl e \<Rightarrow> (Inl e, db1)
           | Inr (_, db2) \<Rightarrow>
               (case calculate_route_deviation db2 sid latitude longitude 100 of
                  Inl e \<Rightarrow> (Inl e, db2)
                | Inr dev \<Rightarrow>
                    (Inr \<lparr>tracking_id = tp_id tracking,
                          result_distance_from_route_meters = distance_from_route_meters dev,
                          result_is_deviated = is_deviated dev\<rparr>, db2))))"

section \<open>Nearest driver (\<^verbatim>\<open>driver_service.py\<close>)\<close>

text \<open>
  The statement that computes the distance of a candidate: the arguments
  \<^verbatim>\<open>driver.location.y if driver.location else 0\<close> and
  \<^verbatim>\<open>driver.location.x if driver.location else 0\<close> are read first, on the \<^verbatim>\<open>WKBElement\<close> of
  the column, then the call is made.
\<close>

definition driver_distance :: "Driver \<Rightarrow> real \<Rightarrow> real \<Rightarrow> exn + real" where
  "driver_distance driver origin_lat origin_lng =
     and_then (case driver_location driver of
                 Some l \<Rightarrow> getattr WKBElement_attributes ''y'' (snd l) | None \<Rightarrow> Inr 0) (\<lambda>a.
     and_then (case driver_location driver of
                 Some l \<Rightarrow> getattr WKBElement_attributes ''x'' (fst l) | None \<Rightarrow> Inr 0) (\<lambda>b.
     calculate_distance_km_4 a b origin_lat origin_lng))"

text \<open>
  The loop over the candidate drivers. Its two variables \<^verbatim>\<open>nearest_driver\<close> and
  \<^verbatim>\<open>nearest_distance\<close> change together: \<open>None\<close> is their initial value
  (\<^verbatim>\<open>None\<close>, \<^verbatim>\<open>float('inf')\<close>), below which every distance lies.
\<close>

fun nearest_loop ::
    "Session \<Rightarrow> real \<Rightarrow> real \<Rightarrow> real \<Rightarrow> real \<Rightarrow> Driver list \<Rightarrow> (Driver \<times> real) option
       \<Rightarrow> exn + (Driver \<times> real) option" where
  "nearest_loop db weight origin_lat origin_lng max_distance_km [] nearest = Inr nearest"
| "nearest_loop db weight origin_lat origin_lng max_distance_km (driver # rest) nearest =
     (if \<not> available (check_driver_availability_for_shipment (driver_id driver) weight db)
      then nearest_loop db weight origin_lat origin_lng max_distance_km rest nearest
      else case driver_distance driver origin_lat origin_lng of
             Inl e \<Rightarrow> Inl e
           | Inr distance \<Rightarrow>
               nearest_loop db weight origin_lat origin_lng max_distance_km rest
                 (if (case nearest of None \<Rightarrow> True | Some n \<Rightarrow> distance < snd n)
                     \<and> distance \<le> max_distance_km
                  then Some (driver, distance) else nearest))"

definition find_nearest_available_driver ::
    "real \<Rightarrow> real \<Rightarrow> real \<Rightarrow> Session \<Rightarrow> real \<Rightarrow> exn + (Driver \<times> real) option" where
  "find_nearest_available_driver origin_lat origin_lng weight db max_distance_km =
     nearest_loop db weight origin_lat origin_lng max_distance_km
       (filter (\<lambda>d. driver_is_active d = True
                     \<and> driver_status d \<in> set [Driver_AVAILABLE, ON_DUTY]
                     \<and> driver_location d \<noteq> None) (drivers db))
       None"

section \<open>Words of the specification and example data\<close>

text \<open>
  The drivers the query of \<^verbatim>\<open>find_nearest_available_driver\<close> selects, and those the
  availability check lets through.
\<close>

definition in_query :: "Driver \<Rightarrow> bool" where
  "in_query d =
     (driver_is_active d \<and> (driver_status d = Driver_AVAILABLE \<or> driver_status d = ON_DUTY)
      \<and> driver_location d \<noteq> None)"

definition passes_check :: "Session \<Rightarrow> real \<Rightarrow> Driver \<Rightarrow> bool" where
  "passes_check db weight d =
     available (check_driver_availability_for_shipment (driver_id d) weight db)"


text \<open>
  Example data: pings for shipment 4 along the first coordinate axis, in a database of
  a flat world whose coordinates are metres.
\<close>

definition ping :: "uuid \<Rightarrow> real \<Rightarrow> datetime \<Rightarrow> TrackingPoint" where
  "ping i x t = \<lparr>tp_id = i, tp_shipment_id = 4, tp_location = (x, 0),
                 speed_kmh = None, recorded_at = t, tp_notes = None\<rparr>"

fun flat_length :: "geo list \<Rightarrow> real" where
  "flat_length (a # b # rest) = \<bar>fst a - fst b\<bar> + \<bar>snd a - snd b\<bar> + flat_length (b # rest)"
| "flat_length _ = 0"

definition flat_world :: "TrackingPoint list \<Rightarrow> Session" where
  "flat_world tps = \<lparr>drivers = [], shipments = [], vehicles = [], tracking_points = tps,
      ST_Distance = (\<lambda>a b. Some (\<bar>fst a - fst b\<bar> + \<bar>snd a - snd b\<bar>)),
      ST_Distance_route = (\<lambda>_ _. 0),
      ST_Length_MakeLine = (\<lambda>ps. if ps = [] then None else Some (flat_length ps))\<rparr>"

text \<open>Driver 7 and shipment 4, for the ingest.\<close>

definition shipment_4 :: Shipment where
  "shipment_4 = \<lparr>shipment_id = 4, shipment_driver_id = Some 7, shipment_status = IN_TRANSIT,
                 estimated_distance_km = Some 12\<rparr>"

definition ingest_db :: Session where
  "ingest_db = \<lparr>drivers = [driver_7], shipments = [shipment_4], vehicles = [],
                tracking_points = [],
                ST_Distance = (\<lambda>_ _. Some 2000), ST_Distance_route = (\<lambda>_ _. 12),
                ST_Length_MakeLine = (\<lambda>_. None)\<rparr>"

text \<open>
  Three drivers 10, 2 and 45 km east of the origin, all on duty with the motorcycle.
\<close>

definition driver_at :: "uuid \<Rightarrow> real \<Rightarrow> Driver" where
  "driver_at i x = \<lparr>driver_id = i, driver_vehicle_id = Some 1, driver_status = ON_DUTY,
                    driver_location = Some (x, 0), driver_is_active = True\<rparr>"

definition dispatch_db :: Session where
  "dispatch_db = \<lparr>drivers = [driver_at 21 10000, driver_at 22 2000, driver_at 23 45000],
                  shipments = [], vehicles = [a_motorcycle], tracking_points = [],
                  ST_Distance = (\<lambda>a b. Some (\<bar>fst a - fst b\<bar> + \<bar>snd a - snd b\<bar>)),
                  ST_Distance_route = (\<lambda>_ _. 0),
                  ST_Length_MakeLine = (\<lambda>_. None)\<rparr>"

section \<open>Properties of vehicle selection\<close>

lemma first_of_types_find:
  "first_of_types ts vs = find (\<lambda>v. vehicle_type v \<in> set ts) vs"
  by (induction vs) simp_all

lemma find_filter_conj:
  "find Q (filter P xs) = find (\<lambda>x. P x \<and> Q x) xs"
  by (induction xs) simp_all

lemma filter_hd_find:
  "find P xs = (case filter P xs of [] \<Rightarrow> None | x # _ \<Rightarrow> Some x)"
  by (induction xs) simp_all

lemma pick_preferred:
  "(case filter P xs of
      [] \<Rightarrow> None
    | v0 # _ \<Rightarrow> (case find Q (filter P xs) of Some v \<Rightarrow> Some v | None \<Rightarrow> Some v0))
   = (case find (\<lambda>x. P x \<and> Q x) xs of Some v \<Rightarrow> Some v | None \<Rightarrow> find P xs)"
proof (cases "filter P xs")
  case Nil
  then have "find P xs = None"
    by (simp add: filter_hd_find)
  moreover have "find (\<lambda>x. P x \<and> Q x) xs = None"
    using Nil by (simp add: find_filter_conj [symmetric])
  ultimately show ?thesis
    using Nil by simp
next
  case (Cons v0 rest)
  then have "find P xs = Some v0"
    by (simp add: filter_hd_find)
  then show ?thesis
    using Cons by (simp add: find_filter_conj [symmetric] split: option.splits)
qed

lemma tier_loop:
  "(if d < 5 \<and> w < 10 then first_of_types [MOTORCYCLE] vs
    else if d < 20 \<and> w < 500 then first_of_types [VAN, PICKUP] vs
    else first_of_types [TRUCK] vs)
   = find (\<lambda>v. vehicle_type v \<in> set (preferred_types w d)) vs"
  by (simp add: first_of_types_find preferred_types_def)

lemma suitable_filter:
  "(\<lambda>v. vehicle_status v = Vehicle_AVAILABLE \<and> vehicle_is_active v \<and> capacity_kg v \<ge> w)
   = suitable w"
  by (auto simp: suitable_def fun_eq_iff)

text \<open>
  C9. The selection looks only at active, available vehicles whose capacity covers the
  weight; it returns the first of them (in stored order) that has a class the tier
  prefers (motorcycle below 5 km and 10 kg, van or pickup below 20 km and 500 kg, truck
  otherwise), and when none has, the first suitable vehicle whatever its class; it
  returns nothing exactly when no vehicle is suitable. With 8 kg over 3 km, a suitable
  motorcycle and van give the motorcycle, and a suitable van alone gives the van.
\<close>

theorem get_optimal_vehicle_tiered:
  "get_optimal_vehicle_for_shipment w d db =
     (case find (\<lambda>v. suitable w v \<and> vehicle_type v \<in> set (preferred_types w d)) (vehicles db) of
        Some v \<Rightarrow> Some v
      | None \<Rightarrow> find (suitable w) (vehicles db))
   \<and> get_optimal_vehicle_for_shipment 8 3 (fleet [a_van, a_motorcycle]) = Some a_motorcycle
   \<and> get_optimal_vehicle_for_shipment 8 3 (fleet [a_van]) = Some a_van"
proof (intro conjI)
  show "get_optimal_vehicle_for_shipment w d db =
     (case find (\<lambda>v. suitable w v \<and> vehicle_type v \<in> set (preferred_types w d)) (vehicles db) of
        Some v \<Rightarrow> Some v
      | None \<Rightarrow> find (suitable w) (vehicles db))"
    unfolding get_optimal_vehicle_for_shipment_def Let_def tier_loop suitable_filter
    by (rule pick_preferred)
  show "get_optimal_vehicle_for_shipment 8 3 (fleet [a_van, a_motorcycle]) = Some a_motorcycle"
    by (simp add: get_optimal_vehicle_for_shipment_def fleet_def a_van_def a_motorcycle_def)
  show "get_optimal_vehicle_for_shipment 8 3 (fleet [a_van]) = Some a_van"
    by (simp add: get_optimal_vehicle_for_shipment_def fleet_def a_van_def)
qed

section \<open>Properties of the availability check\<close>

text \<open>
  C10. A driver who exists, is active, is not off duty and is under the workload cap,
  and whose assigned vehicle id names no vehicle record, is reported available,
  whatever the shipment weighs: the capacity check is skipped.
\<close>

theorem availability_skips_missing_vehicle:
  assumes "find (\<lambda>d. driver_id d = did) (drivers db) = Some driver"
    and "driver_is_active driver"
    and "driver_status driver \<noteq> OFF_DUTY"
    and "can_accept_more (get_driver_active_workload did db)"
    and "driver_vehicle_id driver = Some vid"
    and "find (\<lambda>v. vehicle_id v = vid) (vehicles db) = None"
  shows "available (check_driver_availability_for_shipment did weight db)
         \<and> reason (check_driver_availability_for_shipment did weight db) = Driver_is_available"
  using assms by (simp add: check_driver_availability_for_shipment_def Let_def)

theorem availability_skips_missing_vehicle_witness:
  "find (\<lambda>d. driver_id d = 7) (drivers dangling_db) = Some driver_7
   \<and> driver_is_active driver_7
   \<and> driver_status driver_7 \<noteq> OFF_DUTY
   \<and> can_accept_more (get_driver_active_workload 7 dangling_db)
   \<and> driver_vehicle_id driver_7 = Some 99
   \<and> find (\<lambda>v. vehicle_id v = 99) (vehicles dangling_db) = None
   \<and> available (check_driver_availability_for_shipment 7 100000 dangling_db)
   \<and> reason (check_driver_availability_for_shipment 7 100000 dangling_db) = Driver_is_available"
proof -
  have h1: "find (\<lambda>d. driver_id d = 7) (drivers dangling_db) = Some driver_7"
    by (simp add: dangling_db_def driver_7_def)
  have h2: "driver_is_active driver_7" and h3: "driver_status driver_7 \<noteq> OFF_DUTY"
    and h5: "driver_vehicle_id driver_7 = Some 99"
    by (simp_all add: driver_7_def)
  have h4: "can_accept_more (get_driver_active_workload 7 dangling_db)"
    by (simp add: get_driver_active_workload_def dangling_db_def)
  have h6: "find (\<lambda>v. vehicle_id v = 99) (vehicles dangling_db) = None"
    by (simp add: dangling_db_def a_motorcycle_def)
  from availability_skips_missing_vehicle [OF h1 h2 h3 h4 h5 h6, of 100000]
  show ?thesis using h1 h2 h3 h4 h5 h6 by simp
qed

section \<open>Properties of the tracking analytics\<close>

lemma pair_distance_raises:
  "pair_distance prev_point curr_point = Inl (AttributeError ''x'')"
  by (simp add: pair_distance_def and_then_def getattr_def TrackingPoint_attributes_def)

lemma two_points:
  "\<not> length xs < 2 \<Longrightarrow> \<exists>p q rest. xs = p # q # rest"
  by (cases xs; cases "tl xs") auto

lemma stops_loop_raises:
  "stops_loop m (p # q # rest) stops = Inl (AttributeError ''x'')"
  by (simp add: stop_step_def pair_distance_raises and_then_def)

lemma anomalies_loop_raises:
  "anomalies_loop (p # q # rest) found = Inl (AttributeError ''x'')"
  by (simp add: anomaly_step_def pair_distance_raises and_then_def Let_def)

lemma speeds_loop_raises:
  "speeds_loop (p # q # rest) speeds = Inl (AttributeError ''x'')"
  by (simp add: speed_step_def pair_distance_raises and_then_def)

subsection \<open>Stops\<close>

text \<open>
  C6, on the code as it runs. For every log of two or more points the detection raises
  \<^verbatim>\<open>AttributeError\<close> at the read of \<^verbatim>\<open>prev_point.x\<close>, before any distance is compared with
  0.1 km or any elapsed time with \<open>min_stop_minutes\<close>: it returns no stop for any pair.
  For a shorter log it returns the empty list. Two points 50 m and 6 minutes apart,
  whose distance the helper called with the session gives as 0.05 km, raise for a
  minimum of 5 minutes as for 10.
\<close>

theorem detect_delivery_stops_raises:
  "detect_delivery_stops sid db min_stop_minutes =
     (if length (points_of db sid) < 2 then Inr [] else Inl (AttributeError ''x''))"
proof (cases "length (points_of db sid) < 2")
  case True
  then show ?thesis by (simp add: detect_delivery_stops_def)
next
  case False
  then obtain p q rest where "points_of db sid = p # q # rest"
    using two_points by blast
  with False show ?thesis
    by (simp add: detect_delivery_stops_def stops_loop_raises del: stops_loop.simps)
qed

theorem detect_delivery_stops_raises_witness:
  "points_of (flat_world [ping 11 0 0, ping 12 50 360]) 4 = [ping 11 0 0, ping 12 50 360]
   \<and> calculate_distance_km (flat_world [ping 11 0 0, ping 12 50 360]) 0 0 0 50 = Inr 0.05
   \<and> detect_delivery_stops 4 (flat_world [ping 11 0 0, ping 12 50 360]) 5
       = Inl (AttributeError ''x'')
   \<and> detect_delivery_stops 4 (flat_world [ping 11 0 0, ping 12 50 360]) 10
       = Inl (AttributeError ''x'')"
proof -
  let ?db = "flat_world [ping 11 0 0, ping 12 50 360]"
  have pts: "points_of ?db 4 = [ping 11 0 0, ping 12 50 360]"
    by (simp add: points_of_def flat_world_def ping_def)
  have km: "calculate_distance_km ?db 0 0 0 50 = Inr 0.05"
    by (simp add: calculate_distance_km_def flat_world_def quantize_half_up_def)
  from detect_delivery_stops_raises [of 4 ?db 5] detect_delivery_stops_raises [of 4 ?db 10]
  show ?thesis
    by (simp add: pts km)
qed

subsection \<open>Sequence validation\<close>

text \<open>
  C4, on the code as it runs. For every log of two or more points the validation raises
  \<^verbatim>\<open>AttributeError\<close> at the read of \<^verbatim>\<open>prev_point.x\<close> in its first pair: it throws, and
  returns neither \<open>valid\<close> nor an anomaly. For a shorter log it returns \<open>valid\<close> with
  no anomaly.
\<close>

theorem validate_tracking_point_sequence_raises:
  "validate_tracking_point_sequence sid db =
     (if length (points_of db sid) < 2
      then Inr \<lparr>valid = True, anomalies = [], total_points_checked = None,
                message = Not_enough_data\<rparr>
      else Inl (AttributeError ''x''))"
proof (cases "length (points_of db sid) < 2")
  case True
  then show ?thesis by (simp add: validate_tracking_point_sequence_def)
next
  case False
  then obtain p q rest where "points_of db sid = p # q # rest"
    using two_points by blast
  with False show ?thesis
    by (simp add: validate_tracking_point_sequence_def anomalies_loop_raises
        del: anomalies_loop.simps)
qed

theorem validate_tracking_point_sequence_raises_witness:
  "points_of (flat_world [ping 11 0 0, ping 12 1000 1]) 4 = [ping 11 0 0, ping 12 1000 1]
   \<and> validate_tracking_point_sequence 4 (flat_world [ping 11 0 0, ping 12 1000 1])
       = Inl (AttributeError ''x'')"
proof -
  let ?db = "flat_world [ping 11 0 0, ping 12 1000 1]"
  have pts: "points_of ?db 4 = [ping 11 0 0, ping 12 1000 1]"
    by (simp add: points_of_def flat_world_def ping_def)
  from validate_tracking_point_sequence_raises [of 4 ?db] show ?thesis
    by (simp add: pts)
qed

subsection \<open>Average speed\<close>

text \<open>
  C7, at the logs of fewer than two points: the dictionary returned there has the keys
  \<^verbatim>\<open>average_speed_kmh\<close> and \<^verbatim>\<open>max_speed_kmh\<close>, both 0, and \<^verbatim>\<open>message\<close>, and no key
  \<^verbatim>\<open>min_speed_kmh\<close>.
\<close>

theorem calculate_average_speed_insufficient:
  assumes "length (points_of db sid) < 2"
  shows "\<exists>r. calculate_average_speed sid db = Inr r
           \<and> map_of r ''average_speed_kmh'' = Some (Number 0)
           \<and> map_of r ''max_speed_kmh'' = Some (Number 0)
           \<and> map_of r ''message'' = Some (Text ''Insufficient tracking data'')
           \<and> map_of r ''min_speed_kmh'' = None"
  using assms by (simp add: calculate_average_speed_def)

theorem calculate_average_speed_insufficient_witness:
  "length (points_of (flat_world [ping 11 0 0]) 4) < 2
   \<and> (\<exists>r. calculate_average_speed 4 (flat_world [ping 11 0 0]) = Inr r
           \<and> map_of r ''average_speed_kmh'' = Some (Number 0)
           \<and> map_of r ''max_speed_kmh'' = Some (Number 0)
           \<and> map_of r ''message'' = Some (Text ''Insufficient tracking data'')
           \<and> map_of r ''min_speed_kmh'' = None)"
proof -
  have h: "length (points_of (flat_world [ping 11 0 0]) 4) < 2"
    by (simp add: points_of_def flat_world_def ping_def)
  from calculate_average_speed_insufficient [OF h] h show ?thesis
    by blast
qed

subsection \<open>Total distance travelled\<close>






subsection \<open>Estimated delivery time\<close>

text \<open>
  C8, on the code as it runs. The estimate raises \<^verbatim>\<open>TypeError\<close> at its call of
  \<^verbatim>\<open>calculate_distance_km\<close>, whatever the coordinates and the speed: an absent or zero
  speed gets no result at 40 km/h, and a negative speed gets this same \<^verbatim>\<open>TypeError\<close>.
\<close>

theorem calculate_estimated_delivery_time_raises:
  "calculate_estimated_delivery_time now lat lng dlat dlng speed =
     Inl (TypeError ''calculate_distance_km() missing 1 required positional argument: dest_lng'')"
  by (simp add: calculate_estimated_delivery_time_def calculate_distance_km_4_def and_then_def)

theorem calculate_estimated_delivery_time_raises_witness:
  "calculate_estimated_delivery_time 0 0 0 0 40000 None =
     Inl (TypeError ''calculate_distance_km() missing 1 required positional argument: dest_lng'')
   \<and> calculate_estimated_delivery_time 0 0 0 0 40000 (Some 0) =
     Inl (TypeError ''calculate_distance_km() missing 1 required positional argument: dest_lng'')
   \<and> calculate_estimated_delivery_time 0 0 0 0 40000 (Some (- 5)) =
     Inl (TypeError ''calculate_distance_km() missing 1 required positional argument: dest_lng'')"
  by (intro conjI) (rule calculate_estimated_delivery_time_raises)+

section \<open>Properties of the tracking ingest\<close>

lemma save_tracking_point_raises:
  "save_tracking_point db new_id now did sid latitude longitude speed_kph =
     (Inl (Exception ''Error saving tracking point''), db)"
  by (simp add: save_tracking_point_def construct_def TrackingPoint_attributes_def)

text \<open>
  C1, on the code as it runs. \<^verbatim>\<open>track_driver\<close> checks no coordinate: whatever the
  latitude and the longitude, in range or out of range, its first step fails in the
  constructor of the row, and the call raises \<^verbatim>\<open>Exception("Error saving tracking point")\<close>
  and leaves the session as it was.
\<close>

theorem track_driver_rejects_every_ping:
  "track_driver db new_id now did sid latitude longitude speed_kph =
     (Inl (Exception ''Error saving tracking point''), db)"
  by (simp add: track_driver_def save_tracking_point_raises)

theorem track_driver_rejects_every_ping_witness:
  "\<not> validate_coordinates 91 200
   \<and> track_driver ingest_db 11 0 7 4 91 200 None
       = (Inl (Exception ''Error saving tracking point''), ingest_db)
   \<and> validate_coordinates 0 0
   \<and> track_driver ingest_db 11 0 7 4 0 0 None
       = (Inl (Exception ''Error saving tracking point''), ingest_db)"
  using track_driver_rejects_every_ping [of ingest_db 11 0 7 4 91 200 None]
    track_driver_rejects_every_ping [of ingest_db 11 0 7 4 0 0 None]
  by (simp add: validate_coordinates_def)

text \<open>
  C2, on the code as it runs. The deviation step raises \<^verbatim>\<open>Shipment route not found\<close> when
  the shipment does not exist, and \<^verbatim>\<open>AttributeError\<close> at the read of \<^verbatim>\<open>shipment.route\<close>
  for every shipment that exists: it reports no deviation, available or not. A ping
  never reaches it: \<^verbatim>\<open>track_driver\<close> returns no result and never fails with
  \<^verbatim>\<open>Shipment route not found\<close>.
\<close>

theorem calculate_route_deviation_raises:
  "calculate_route_deviation db sid latitude longitude threshold_meters =
     (case find (\<lambda>s. shipment_id s = sid) (shipments db) of
        None \<Rightarrow> Inl (Exception ''Shipment route not found'')
      | Some shipment \<Rightarrow> Inl (AttributeError ''route''))
   \<and> fst (track_driver db new_id now did sid latitude longitude speed_kph)
       \<noteq> Inl (Exception ''Shipment route not found'')
   \<and> (\<forall>res. fst (track_driver db new_id now did sid latitude longitude speed_kph) \<noteq> Inr res)"
  by (simp add: calculate_route_deviation_def getattr_def Shipment_attributes_def and_then_def
      track_driver_def save_tracking_point_raises split: option.splits)

theorem calculate_route_deviation_raises_witness:
  "find (\<lambda>s. shipment_id s = 4) (shipments ingest_db) = Some shipment_4
   \<and> calculate_route_deviation ingest_db 4 (- 2) 38 100 = Inl (AttributeError ''route'')
   \<and> fst (track_driver ingest_db 11 0 7 4 (- 2) 38 None)
       \<noteq> Inl (Exception ''Shipment route not found'')
   \<and> (\<forall>res. fst (track_driver ingest_db 11 0 7 4 (- 2) 38 None) \<noteq> Inr res)"
proof -
  have s: "find (\<lambda>s. shipment_id s = 4) (shipments ingest_db) = Some shipment_4"
    by (simp add: ingest_db_def shipment_4_def)
  from calculate_route_deviation_raises [of ingest_db 4 "- 2" 38 100 11 0 7 None]
  show ?thesis
    by (simp add: s)
qed

section \<open>Properties of the nearest-driver search\<close>

lemma driver_distance_raises:
  "driver_location d \<noteq> None \<Longrightarrow> driver_distance d olat olng = Inl (AttributeError ''y'')"
  by (auto simp: driver_distance_def getattr_def WKBElement_attributes_def and_then_def)

lemma nearest_loop_raises:
  "list_all (\<lambda>d. driver_location d \<noteq> None) ds \<Longrightarrow>
   nearest_loop db w olat olng maxd ds nearest =
     (if filter (passes_check db w) ds = [] then Inr nearest else Inl (AttributeError ''y''))"
  by (induction ds) (simp_all add: passes_check_def driver_distance_raises)

lemma query_filter:
  "(\<lambda>d. driver_is_active d = True \<and> driver_status d \<in> set [Driver_AVAILABLE, ON_DUTY]
         \<and> driver_location d \<noteq> None) = in_query"
  by (auto simp: in_query_def fun_eq_iff)

text \<open>
  C3, on the code as it runs. When no driver of the query passes the availability
  check, the search returns none. As soon as one passes, it raises \<^verbatim>\<open>AttributeError\<close> at
  the read of \<^verbatim>\<open>driver.location.y\<close>, before any distance is computed: it returns no
  driver. With three eligible drivers 10, 2 and 45 km from the origin and a radius of
  50 km it raises.
\<close>

theorem find_nearest_available_driver_raises:
  "find_nearest_available_driver olat olng w db maxd =
     (if filter (passes_check db w) (filter in_query (drivers db)) = [] then Inr None
      else Inl (AttributeError ''y''))"
proof -
  have "list_all (\<lambda>d. driver_location d \<noteq> None) (filter in_query (drivers db))"
    by (simp add: list_all_iff in_query_def)
  then show ?thesis
    unfolding find_nearest_available_driver_def query_filter
    by (rule nearest_loop_raises)
qed

theorem find_nearest_available_driver_raises_witness:
  "filter (passes_check dispatch_db 8) (filter in_query (drivers dispatch_db))
     = [driver_at 21 10000, driver_at 22 2000, driver_at 23 45000]
   \<and> calculate_distance_km dispatch_db 0 2000 0 0 = Inr 2
   \<and> find_nearest_available_driver 0 0 8 dispatch_db 50 = Inl (AttributeError ''y'')"
proof -
  have p: "passes_check dispatch_db 8 (driver_at i x)" if "i \<in> {21, 22, 23}" for i x
    using that
    by (auto simp: passes_check_def check_driver_availability_for_shipment_def
        get_driver_active_workload_def dispatch_db_def driver_at_def a_motorcycle_def Let_def)
  have q: "in_query (driver_at i x)" for i x
    by (simp add: in_query_def driver_at_def)
  have d: "drivers dispatch_db = [driver_at 21 10000, driver_at 22 2000, driver_at 23 45000]"
    by (simp add: dispatch_db_def)
  have f: "filter (passes_check dispatch_db 8) (filter in_query (drivers dispatch_db))
           = [driver_at 21 10000, driver_at 22 2000, driver_at 23 45000]"
    unfolding d by (simp add: p q)
  have km: "calculate_distance_km dispatch_db 0 2000 0 0 = Inr 2"
    by (simp add: calculate_distance_km_def dispatch_db_def quantize_half_up_def)
  have r: "find_nearest_available_driver 0 0 8 dispatch_db 50 = Inl (AttributeError ''y'')"
    using find_nearest_available_driver_raises [of 0 0 8 dispatch_db 50] unfolding f by simp
  show ?thesis
    by (intro conjI) (rule f km r)+
qed

end
